theory Spec2Isabelle
  imports Main "HOL-Library.AList"
begin

text \<open>
  A model of the transport and of the collection model of the CDAV library: the class
  \<^verbatim>\<open>Request\<close> with its multi-status reducer, the class \<^verbatim>\<open>DavCollection\<close>, the mixin
  \<^verbatim>\<open>davCollectionPublishable\<close> and the encoder \<^verbatim>\<open>addressBookPropSet\<close>. Promises are
  modelled by their outcome: an asynchronous function returns a sum, \<open>Inl\<close> for the error
  it is rejected with and \<open>Inr\<close> for the value it resolves with, next to the state it
  leaves. Every exception the modelled code can throw is a TypeError and is an \<open>Inl\<close> as
  well. The first part of the theory holds the definitions, the second the properties.
\<close>

section \<open>JavaScript values, objects and string primitives\<close>

text \<open>
  The values a property decoder can put into a PropertyMap, which are also the values
  that axios hands over as the data of a response: a string, a sequence of strings, or a
  nested structured value, an object with its own members. An absent property
  (\<^verbatim>\<open>undefined\<close>) is \<open>None\<close> of the option type.
\<close>

datatype jsvalue = VString string | VList "string list" | VStruct "(string \<times> jsvalue) list"

text \<open>
  A JavaScript object used as a dictionary: its own string-keyed properties in insertion
  order. \<^verbatim>\<open>obj[k] = v\<close> is \<open>AList.update k v obj\<close> (an existing key keeps its place, a new
  key goes last), \<^verbatim>\<open>obj[k]\<close> is \<open>map_of obj k\<close>, \<^verbatim>\<open>delete obj[k]\<close> is \<open>AList.delete k obj\<close>.
  The members that a plain object inherits from \<^verbatim>\<open>Object.prototype\<close> are modelled where the
  code reads an object under a key that the server chooses, the two factory maps of a
  collection (\<open>factory_lookup\<close> below). Everywhere else keys are assumed not to be names
  such as \<^verbatim>\<open>constructor\<close> or \<^verbatim>\<open>__proto__\<close>.
\<close>

type_synonym 'v jsobject = "(string \<times> 'v) list"

type_synonym PropertyMap = "jsvalue jsobject"

text \<open>Truthiness of a property read (\<^verbatim>\<open>!x\<close>, \<^verbatim>\<open>x && ...\<close>): undefined and the empty string are falsy.\<close>

fun truthy :: "jsvalue option \<Rightarrow> bool" where
  "truthy None = False"
| "truthy (Some (VString s)) = (s \<noteq> [])"
| "truthy (Some (VList xs)) = True"
| "truthy (Some (VStruct m)) = True"

text \<open>
  \<^verbatim>\<open>x.length === 0\<close>, read only where \<^verbatim>\<open>x\<close> is truthy. A structured value has no length,
  and a member of its own with that name is no number.
\<close>

fun length_is_zero :: "jsvalue option \<Rightarrow> bool" where
  "length_is_zero (Some (VString s)) = (s = [])"
| "length_is_zero (Some (VList xs)) = (xs = [])"
| "length_is_zero (Some (VStruct m)) = False"
| "length_is_zero None = False"

text \<open>
  The conversion of a value to a string, as a DOM method applies it to its argument: a
  string is itself, an array is its elements joined by commas, any other object is the
  text \<^verbatim>\<open>[object Object]\<close>.
\<close>

fun join_comma :: "string list \<Rightarrow> string" where
  "join_comma [] = []"
| "join_comma [x] = x"
| "join_comma (x # y # ys) = x @ '','' @ join_comma (y # ys)"

fun to_text :: "jsvalue \<Rightarrow> string" where
  "to_text (VString s) = s"
| "to_text (VList xs) = join_comma xs"
| "to_text (VStruct m) = ''[object Object]''"

definition is_digit :: "char \<Rightarrow> bool" where
  "is_digit c = (c \<in> set ''0123456789'')"

definition digit_value :: "char \<Rightarrow> int" where
  "digit_value c = of_char c - 48"

definition digits_value :: "string \<Rightarrow> int" where
  "digits_value s = foldl (\<lambda>a c. 10 * a + digit_value c) 0 s"

text \<open>
  An array index in the sense of ECMAScript: the canonical decimal form of an integer
  below \<open>2^32 - 1\<close>. Such keys are enumerated first, in ascending numeric order, by
  \<^verbatim>\<open>Object.keys\<close> and \<^verbatim>\<open>Object.entries\<close>; the other keys follow in insertion order.
\<close>

definition is_array_index :: "string \<Rightarrow> bool" where
  "is_array_index k =
     (k \<noteq> [] \<and> list_all is_digit k \<and> (if hd k = CHR ''0'' then k = ''0'' else True)
      \<and> digits_value k < 4294967295)"

definition Object_entries :: "'v jsobject \<Rightarrow> (string \<times> 'v) list" where
  "Object_entries obj =
     sort_key (\<lambda>e. digits_value (fst e)) (filter (\<lambda>e. is_array_index (fst e)) obj)
     @ filter (\<lambda>e. \<not> is_array_index (fst e)) obj"

definition Object_keys :: "'v jsobject \<Rightarrow> string list" where
  "Object_keys obj = map fst (Object_entries obj)"

text \<open>\<^verbatim>\<open>Object.assign(target, source)\<close>: the source's own properties are written in key order.\<close>

definition Object_assign :: "'v jsobject \<Rightarrow> 'v jsobject \<Rightarrow> 'v jsobject" where
  "Object_assign target source =
     fold (\<lambda>e acc. AList.update (fst e) (snd e) acc) (Object_entries source) target"

text \<open>\<^verbatim>\<open>s.split(c)\<close> for a one-character separator: never empty, \<^verbatim>\<open>''.split(c)\<close> is \<^verbatim>\<open>['']\<close>.\<close>

fun split_on :: "char \<Rightarrow> string \<Rightarrow> string list" where
  "split_on c [] = [[]]"
| "split_on c (x # xs) =
     (if x = c then [] # split_on c xs
      else (case split_on c xs of [] \<Rightarrow> [[x]] | w # ws \<Rightarrow> (x # w) # ws))"

definition is_white_space :: "char \<Rightarrow> bool" where
  "is_white_space c = ((of_char c :: nat) \<in> {9, 10, 11, 12, 13, 32, 160})"

text \<open>
  \<^verbatim>\<open>parseInt(s, 10)\<close>: leading white space is skipped, one sign is read, then the longest
  run of decimal digits; \<open>None\<close> is NaN (no digit). Characters are 8-bit here, so the
  white space outside Latin-1 is not modelled.
\<close>

definition parseInt :: "string \<Rightarrow> int option" where
  "parseInt s =
     (let t = dropWhile is_white_space s;
          neg = (t \<noteq> [] \<and> hd t = CHR ''-'');
          u = (if t \<noteq> [] \<and> (hd t = CHR ''-'' \<or> hd t = CHR ''+'') then tl t else t);
          ds = takeWhile is_digit u
      in if ds = [] then None
         else Some ((if neg then - 1 else 1) * digits_value ds))"

section \<open>Request: status helpers\<close>

text \<open>
  \<^verbatim>\<open>wasRequestSuccessful(status)\<close>: \<^verbatim>\<open>status >= 200 && status < 300\<close>; every comparison with
  NaN or undefined (\<open>None\<close>) is false.
\<close>

definition wasRequestSuccessful :: "int option \<Rightarrow> bool" where
  "wasRequestSuccessful status =
     (case status of None \<Rightarrow> False | Some n \<Rightarrow> 200 \<le> n \<and> n < 300)"

text \<open>
  \<^verbatim>\<open>getStatusCodeFromString(status)\<close>: \<^verbatim>\<open>parseInt(status.split(' ')[1], 10)\<close>. When the line has
  no space the second element is undefined, which \<^verbatim>\<open>parseInt\<close> reads as the text
  \<^verbatim>\<open>undefined\<close>.
\<close>

definition getStatusCodeFromString :: "string \<Rightarrow> int option" where
  "getStatusCodeFromString status =
     (case split_on CHR '' '' status of
        a # b # rest \<Rightarrow> parseInt b
      | _ \<Rightarrow> parseInt ''undefined'')"

section \<open>Request: the multi-status reducer\<close>

text \<open>
  The view of a 207 body that the XPath queries of \<^verbatim>\<open>_parseMultiStatusResponse\<close> give:
  the \<^verbatim>\<open>/d:multistatus/d:response\<close> elements in document order, each with the string value
  of its \<^verbatim>\<open>d:href\<close> and its \<^verbatim>\<open>d:propstat\<close> children, each of those with the string value of
  its \<^verbatim>\<open>d:status\<close> and the elements \<^verbatim>\<open>d:prop/*\<close>. A property element has a namespace URI
  (null for none), a local name and a content for the decoder.
\<close>

record prop_element =
  namespaceURI :: "string option"
  localName :: string
  content :: string

record propstat_element =
  status_line :: string
  prop_elements :: "prop_element list"

record response_element =
  href :: string
  propstats :: "propstat_element list"

text \<open>
  The parser handed to the Request constructor. Its class is not among the sources; its
  two methods are taken as total functions (a decoder that throws is not modelled).
\<close>

record Parser =
  canParse :: "string \<Rightarrow> bool"
  parse :: "prop_element \<Rightarrow> jsvalue"

text \<open>
  The key of a property element: an opening brace, the namespace URI (a null one prints
  as \<^verbatim>\<open>null\<close>), a closing brace, the local name.
\<close>

definition clark_name :: "prop_element \<Rightarrow> string" where
  "clark_name n =
     ''{'' @ (case namespaceURI n of None \<Rightarrow> ''null'' | Some u \<Rightarrow> u) @ ''}'' @ localName n"

text \<open>The innermost loop: every property element a decoder accepts is assigned under its name.\<close>

definition parseProps :: "Parser \<Rightarrow> prop_element list \<Rightarrow> PropertyMap \<Rightarrow> PropertyMap" where
  "parseProps P nodes parsedProperties =
     fold (\<lambda>n acc. if canParse P (clark_name n)
                    then AList.update (clark_name n) (parse P n) acc else acc)
          nodes parsedProperties"

definition propstat_successful :: "propstat_element \<Rightarrow> bool" where
  "propstat_successful ps = wasRequestSuccessful (getStatusCodeFromString (status_line ps))"

text \<open>The loop over the propstat blocks of one response: an unsuccessful block is skipped.\<close>

definition parsePropStats ::
  "Parser \<Rightarrow> propstat_element list \<Rightarrow> PropertyMap \<Rightarrow> PropertyMap" where
  "parsePropStats P blocks parsedProperties =
     fold (\<lambda>ps acc. if \<not> propstat_successful ps then acc
                     else parseProps P (prop_elements ps) acc)
          blocks parsedProperties"

text \<open>
  The loop over the responses: \<^verbatim>\<open>result[href] = parsedProperties\<close>, with a fresh
  \<^verbatim>\<open>parsedProperties\<close> for every response.
\<close>

definition reduceResponses :: "Parser \<Rightarrow> response_element list \<Rightarrow> PropertyMap jsobject" where
  "reduceResponses P responses =
     fold (\<lambda>r result. AList.update (href r) (parsePropStats P (propstats r) []) result)
          responses []"

section \<open>Request: sending a request\<close>

record http_request =
  req_url :: string
  req_method :: string
  req_headers :: "string jsobject"
  req_data :: "string option"

text \<open>
  What axios resolves with: the status and the data, which is the text of the body or,
  for a body that is JSON, the value parsed from it.
\<close>

record axios_response =
  ax_status :: int
  ax_data :: jsvalue

text \<open>
  What axios rejects with, as far as the handler reads it: whether \<^verbatim>\<open>axios.isCancel(error)\<close>
  holds, whether \<^verbatim>\<open>error.request\<close> is truthy, \<^verbatim>\<open>error.status\<close> (\<open>None\<close> when it is undefined)
  and \<^verbatim>\<open>error.data\<close>.
\<close>

record axios_error =
  isCancel :: bool
  error_request :: bool
  error_status :: "int option"
  error_data :: "string option"

text \<open>
  The error classes, each built from \<^verbatim>\<open>{ body, status }\<close>, and the TypeError that the URL
  constructor or a read of a property of undefined throws.
\<close>

datatype dav_error =
    NetworkRequestAbortedError "string option" "int option"
  | NetworkRequestError "string option" "int option"
  | NetworkRequestClientError "string option" "int option"
  | NetworkRequestServerError "string option" "int option"
  | NetworkRequestHttpError "string option" "int option"
  | TypeError

text \<open>
  The body of a resolved request: the data as axios handed it over, the reduced
  multi-status map, or (for a PROPFIND of depth 0) the value found under the first key
  of that map, \<open>None\<close> when the map is empty.
\<close>

datatype response_body =
    Raw jsvalue
  | MultiStatus "PropertyMap jsobject"
  | Unwrapped "PropertyMap option"

record dav_response =
  resp_body :: response_body
  resp_status :: int

text \<open>
  The tree that the XML utility serialises: a name \<^verbatim>\<open>[namespace, localName]\<close>, attributes,
  children and a value.
\<close>

datatype xml =
  Element (el_name: "string \<times> string") (el_attributes: "(string \<times> string) list")
    (el_children: "xml list") (el_value: "jsvalue option")

text \<open>
  A property-set encoder: from the changed properties (an absent one is undefined) to the
  elements to send.
\<close>

type_synonym propset = "(jsvalue option) jsobject \<Rightarrow> xml list"

text \<open>
  What the sources import and do not contain, taken as parameters: the URL constructor
  (both results are \<open>None\<close> where it throws), the DOM parser with the XPath evaluation of
  the reducer, \<^verbatim>\<open>XMLUtility.serialize\<close>, axios (a function of a server state \<open>'s\<close>, so that
  two requests can be answered differently), the property-set encoder of
  \<^verbatim>\<open>propset/davCollectionPropSet.js\<close>, \<^verbatim>\<open>DavObject.getPropFindList()\<close> and
  \<^verbatim>\<open>StringUtility.uri(token, isAvailable)\<close>, taken as a total function of the token and of
  the availability test.
\<close>

record 's platform =
  url_pathname :: "string \<Rightarrow> string \<Rightarrow> string option"
  url_href :: "string \<Rightarrow> string \<Rightarrow> string option"
  xpath_responses :: "string \<Rightarrow> response_element list"
  serialize :: "xml \<Rightarrow> string"
  axios_request :: "'s \<Rightarrow> http_request \<Rightarrow> (axios_error + axios_response) \<times> 's"
  davCollectionPropSet :: propset
  DavObject_getPropFindList :: "(string \<times> string) list"
  StringUtility_uri :: "string \<Rightarrow> (string \<Rightarrow> bool) \<Rightarrow> string"

record Request =
  baseUrl :: string
  parser :: Parser

text \<open>The network: the server's state and the requests handed to axios so far.\<close>

record 's net =
  server :: 's
  sent :: "http_request list"

definition send ::
  "'s platform \<Rightarrow> http_request \<Rightarrow> 's net \<Rightarrow> (axios_error + axios_response) \<times> 's net" where
  "send pf rq n =
     (case axios_request pf (server n) rq of
        (res, s') \<Rightarrow> (res, \<lparr>server = s', sent = sent n @ [rq]\<rparr>))"

definition pathname :: "'s platform \<Rightarrow> Request \<Rightarrow> string \<Rightarrow> string option" where
  "pathname pf R u = url_pathname pf u (baseUrl R)"

definition absoluteUrl :: "'s platform \<Rightarrow> Request \<Rightarrow> string \<Rightarrow> string option" where
  "absoluteUrl pf R u = url_href pf u (baseUrl R)"

definition parseMultiStatusResponse ::
  "'s platform \<Rightarrow> Request \<Rightarrow> string \<Rightarrow> PropertyMap jsobject" where
  "parseMultiStatusResponse pf R text = reduceResponses (parser R) (xpath_responses pf text)"

definition getDefaultHeaders :: "string jsobject" where
  "getDefaultHeaders =
     [(''Depth'', ''0''), (''Content-Type'', ''application/xml; charset=utf-8'')]"

text \<open>
  The handler of a resolved request. A header value is kept as the text \<^verbatim>\<open>parseInt\<close> reads
  (the number 0 as \<^verbatim>\<open>0\<close>). The data of an answer with the status 207 goes to the DOM
  parser, which reads it as a string; the data of any other answer is passed on as it is.
\<close>

definition onFulfilled ::
  "'s platform \<Rightarrow> Request \<Rightarrow> string \<Rightarrow> string jsobject \<Rightarrow> axios_response \<Rightarrow> dav_response" where
  "onFulfilled pf R method assignHeaders response =
     \<lparr>resp_body =
        (if ax_status response = 207 then
           (let responseBody = parseMultiStatusResponse pf R (to_text (ax_data response)) in
            if (case map_of assignHeaders ''Depth'' of
                  None \<Rightarrow> parseInt ''undefined'' | Some d \<Rightarrow> parseInt d) = Some 0
               \<and> method = ''PROPFIND''
            then Unwrapped (case Object_keys responseBody of
                              [] \<Rightarrow> None | k # ks \<Rightarrow> map_of responseBody k)
            else MultiStatus responseBody)
         else Raw (ax_data response)),
      resp_status = ax_status response\<rparr>"

text \<open>The handler of a rejected request: the first test that holds decides.\<close>

definition onRejected :: "axios_error \<Rightarrow> dav_error" where
  "onRejected error =
     (if isCancel error then NetworkRequestAbortedError None (Some (- 1))
      else if error_request error then NetworkRequestError None (Some (- 1))
      else if (case error_status error of None \<Rightarrow> False | Some s \<Rightarrow> 400 \<le> s \<and> s < 500)
        then NetworkRequestClientError (error_data error) (error_status error)
      else if (case error_status error of None \<Rightarrow> False | Some s \<Rightarrow> 500 \<le> s \<and> s < 600)
        then NetworkRequestServerError (error_data error) (error_status error)
      else NetworkRequestHttpError (error_data error) (error_status error))"

definition request ::
  "'s platform \<Rightarrow> Request \<Rightarrow> string \<Rightarrow> string \<Rightarrow> string jsobject \<Rightarrow> string option \<Rightarrow> 's net
     \<Rightarrow> (dav_error + dav_response) \<times> 's net" where
  "request pf R method u headers data n =
     (let assignHeaders = Object_assign (Object_assign [] getDefaultHeaders) headers in
      case absoluteUrl pf R u of
        None \<Rightarrow> (Inl TypeError, n)
      | Some target \<Rightarrow>
          (case send pf \<lparr>req_url = target, req_method = method,
                         req_headers = assignHeaders, req_data = data\<rparr> n of
             (Inr response, n') \<Rightarrow> (Inr (onFulfilled pf R method assignHeaders response), n')
           | (Inl error, n') \<Rightarrow> (Inl (onRejected error), n')))"

text \<open>
  Modelled from the spec: \<^verbatim>\<open>utility/namespaceUtility.js\<close> is not among the sources; the
  namespace constants have the values that the literal keys of the sources and the test
  of the principal model show.
\<close>

definition NS_DAV :: string where
  "NS_DAV = ''DAV:''"

definition NS_CALENDARSERVER :: string where
  "NS_CALENDARSERVER = ''http://calendarserver.org/ns/''"

definition NS_IETF_CARDDAV :: string where
  "NS_IETF_CARDDAV = ''urn:ietf:params:xml:ns:carddav''"

definition NS_OWNCLOUD :: string where
  "NS_OWNCLOUD = ''http://owncloud.org/ns''"

text \<open>
  Modelled from the spec: \<^verbatim>\<open>XMLUtility.getRootSkeleton\<close> is not among the sources. It builds
  a root node and a chain of nested single-child nodes and hands back the children list
  of the innermost node, into which the callers push; here the pushed elements are the
  last argument.
\<close>

fun getRootSkeleton :: "string \<times> string \<Rightarrow> (string \<times> string) list \<Rightarrow> xml list \<Rightarrow> xml" where
  "getRootSkeleton root [] inner = Element root [] inner None"
| "getRootSkeleton root (n # ns) inner = Element root [] [getRootSkeleton n ns inner] None"

definition propFind ::
  "'s platform \<Rightarrow> Request \<Rightarrow> string \<Rightarrow> (string \<times> string) list \<Rightarrow> string \<Rightarrow> string jsobject
     \<Rightarrow> 's net \<Rightarrow> (dav_error + dav_response) \<times> 's net" where
  "propFind pf R u properties depth headers n =
     request pf R ''PROPFIND'' u (AList.update ''Depth'' depth headers)
       (Some (serialize pf (getRootSkeleton (NS_DAV, ''propfind'') [(NS_DAV, ''prop'')]
                              (map (\<lambda>p. Element p [] [] None) properties)))) n"

definition propPatch ::
  "'s platform \<Rightarrow> Request \<Rightarrow> string \<Rightarrow> string jsobject \<Rightarrow> string option
     \<Rightarrow> 's net \<Rightarrow> (dav_error + dav_response) \<times> 's net" where
  "propPatch pf R u headers data n = request pf R ''PROPPATCH'' u headers data n"

definition post ::
  "'s platform \<Rightarrow> Request \<Rightarrow> string \<Rightarrow> string jsobject \<Rightarrow> string option
     \<Rightarrow> 's net \<Rightarrow> (dav_error + dav_response) \<times> 's net" where
  "post pf R u headers data n = request pf R ''POST'' u headers data n"




section \<open>The address book property-set encoder\<close>

text \<open>
  \<^verbatim>\<open>addressBookPropSet(props)\<close>: one element for each of the two keys it knows, in the
  order of \<^verbatim>\<open>Object.entries(props)\<close>; every other key is passed over.
\<close>

definition addressBookPropSet :: propset where
  "addressBookPropSet props =
     concat (map (\<lambda>e.
        if fst e = ''{urn:ietf:params:xml:ns:carddav}addressbook-description''
        then [Element (NS_IETF_CARDDAV, ''addressbook-description'') [] [] (snd e)]
        else if fst e = ''{http://owncloud.org/ns}enabled''
        then [Element (NS_OWNCLOUD, ''enabled'') [] []
                (Some (VString (if truthy (snd e) then ''1'' else ''0'')))]
        else []) (Object_entries props))"

section \<open>DavCollection\<close>

text \<open>
  A constructor registered as a factory: its name and, when it has the static method,
  its \<^verbatim>\<open>getPropFindList()\<close>.
\<close>

record factory =
  factory_name :: string
  factory_getPropFindList :: "(string \<times> string) list option"

text \<open>
  The fields that the constructor assigns; \<open>p_\<close> stands for the leading underscore of the
  source's names. The back-reference \<^verbatim>\<open>_parent\<close> and the shared \<^verbatim>\<open>_request\<close> are arguments
  of the operations instead. \<open>exposed\<close> lists the accessors that \<^verbatim>\<open>_exposeProperty\<close> has
  defined under local names that were no members of the object before: local name,
  property key, mutability. The two factory maps hold their own properties; their
  prototype is \<^verbatim>\<open>Object.prototype\<close>.
\<close>

record DavCollection =
  p_url :: string
  p_props :: PropertyMap
  p_collectionFactoryMapper :: "factory jsobject"
  p_objectFactoryMapper :: "factory jsobject"
  p_updatedProperties :: "string list"
  p_childrenNames :: "string list"
  p_propFindList :: "(string \<times> string) list"
  p_propSetFactory :: "propset list"
  exposed :: "(string \<times> string \<times> bool) list"

definition DavCollection_getPropFindList :: "(string \<times> string) list" where
  "DavCollection_getPropFindList =
     [(NS_DAV, ''displayname''), (NS_DAV, ''owner''), (NS_DAV, ''resourcetype''),
      (NS_DAV, ''sync-token''), (NS_DAV, ''current-user-privilege-set'')]"

text \<open>
  A collection object after an operation: a state of the record, or an object that the
  record cannot hold (a field or a method replaced by an accessor or by an assigned
  value, a \<^verbatim>\<open>_props\<close> that is no object, a factory map with another prototype). Of such an
  object only the value is kept that its getter \<^verbatim>\<open>url\<close> returns.
\<close>

datatype node = Node DavCollection | Outside "jsvalue option"

definition registerPropSetFactory :: "DavCollection \<Rightarrow> propset \<Rightarrow> DavCollection" where
  "registerPropSetFactory c f = c\<lparr>p_propSetFactory := p_propSetFactory c @ [f]\<rparr>"

text \<open>
  \<^verbatim>\<open>_exposeProperty\<close> for a local name of which the object has no member yet, as the
  constructors call it: the accessor is added.
\<close>

definition exposeProperty ::
  "DavCollection \<Rightarrow> string \<Rightarrow> string \<Rightarrow> string \<Rightarrow> bool \<Rightarrow> DavCollection" where
  "exposeProperty c propName xmlNamespace xmlName mutable =
     c\<lparr>exposed := exposed c @ [(propName, ''{'' @ xmlNamespace @ ''}'' @ xmlName, mutable)]\<rparr>"

text \<open>
  The constructor. \<^verbatim>\<open>url.slice(-1)\<close> is the last character, or the empty string for an
  empty url, so the separator is appended to an empty url as well.
\<close>

definition DavCollection_new :: "'s platform \<Rightarrow> string \<Rightarrow> PropertyMap \<Rightarrow> DavCollection" where
  "DavCollection_new pf u props =
     (let u' = (if u = [] \<or> last u \<noteq> CHR ''/'' then u @ ''/'' else u);
          c0 = \<lparr>p_url = u', p_props = props,
                p_collectionFactoryMapper = [], p_objectFactoryMapper = [],
                p_updatedProperties = [], p_childrenNames = [],
                p_propFindList = [], p_propSetFactory = [], exposed = []\<rparr>;
          c1 = registerPropSetFactory c0 (davCollectionPropSet pf);
          c2 = exposeProperty c1 ''displayname'' NS_DAV ''displayname'' True;
          c3 = exposeProperty c2 ''owner'' NS_DAV ''owner'' False;
          c4 = exposeProperty c3 ''resourcetype'' NS_DAV ''resourcetype'' False;
          c5 = exposeProperty c4 ''syncToken'' NS_DAV ''sync-token'' False;
          c6 = exposeProperty c5 ''currentUserPrivilegeSet'' NS_DAV
                 ''current-user-privilege-set'' False
      in c6\<lparr>p_propFindList :=
               p_propFindList c6 @ DavObject_getPropFindList pf @ DavCollection_getPropFindList\<rparr>)"

text \<open>The getter \<^verbatim>\<open>url\<close>, defined by the constructor without a setter: it returns \<^verbatim>\<open>this._url\<close>.\<close>

definition DavCollection_url :: "DavCollection \<Rightarrow> string" where
  "DavCollection_url c = p_url c"





text \<open>
  A read \<^verbatim>\<open>mapper[key]\<close> of one of the two factory maps. A key that is no own property is
  looked up in \<^verbatim>\<open>Object.prototype\<close>: \<^verbatim>\<open>constructor\<close> is the function \<^verbatim>\<open>Object\<close>, \<^verbatim>\<open>__proto__\<close> is
  the prototype object and the other members are built-in methods; all of them are
  truthy, and none but \<^verbatim>\<open>Object\<close> is a constructor.
\<close>

datatype mapper_member = NoMember | Registered factory | ObjectConstructor | NotAConstructor

definition Object_prototype_members :: "string list" where
  "Object_prototype_members =
     [''constructor'', ''__defineGetter__'', ''__defineSetter__'', ''hasOwnProperty'',
      ''__lookupGetter__'', ''__lookupSetter__'', ''isPrototypeOf'', ''propertyIsEnumerable'',
      ''toString'', ''valueOf'', ''__proto__'', ''toLocaleString'']"

definition factory_lookup :: "factory jsobject \<Rightarrow> string \<Rightarrow> mapper_member" where
  "factory_lookup mapper k =
     (case map_of mapper k of
        Some f \<Rightarrow> Registered f
      | None \<Rightarrow>
          if k = ''constructor'' then ObjectConstructor
          else if k \<in> set Object_prototype_members then NotAConstructor
          else NoMember)"

text \<open>Reading an exposed property: \<^verbatim>\<open>this._props[key]\<close>.\<close>

definition get_property :: "DavCollection \<Rightarrow> string \<Rightarrow> jsvalue option" where
  "get_property c propName =
     (case find (\<lambda>e. fst e = propName) (exposed c) of
        None \<Rightarrow> None
      | Some e \<Rightarrow> map_of (p_props c) (fst (snd e)))"


subsection \<open>Resolution of a multi-status result\<close>

text \<open>
  The value of one entry of \<^verbatim>\<open>Object.entries(response.body)\<close>: an object with its members,
  or a value without the two properties the resolution reads (undefined, a string, an
  array): for each of those the resolution ends in a TypeError, either at the first read
  of a property of undefined or at the call of \<^verbatim>\<open>find\<close> on the undefined resource type.
\<close>

datatype entry_props = Props PropertyMap | NoProps

fun value_props :: "jsvalue \<Rightarrow> entry_props" where
  "value_props (VStruct m) = Props m"
| "value_props (VString s) = NoProps"
| "value_props (VList xs) = NoProps"

text \<open>
  What the resolution pushes for an entry: a generic \<^verbatim>\<open>DavObject\<close>, the object of a
  registered constructor (by the name of the constructor), a generic \<^verbatim>\<open>DavCollection\<close>,
  the collection of a registered constructor, or the resolving collection itself, which
  is what \<^verbatim>\<open>new Object(this, ...)\<close> returns.
\<close>

datatype child =
    DavObject string PropertyMap
  | ObjectFromFactory string string PropertyMap bool
  | GenericDavCollection DavCollection
  | CollectionFromFactory string string PropertyMap
  | TheCollectionItself

datatype classification = File | Collection

text \<open>
  The test of the resolution: \<^verbatim>\<open>((!rt) || (rt.length === 0)) && ct\<close>, for the resource type
  \<^verbatim>\<open>rt\<close> and the content type \<^verbatim>\<open>ct\<close> of the entry.
\<close>

definition classify :: "PropertyMap \<Rightarrow> classification" where
  "classify props =
     (if (\<not> truthy (map_of props ''{DAV:}resourcetype'')
          \<or> length_is_zero (map_of props ''{DAV:}resourcetype''))
         \<and> truthy (map_of props ''{DAV:}getcontenttype'')
      then File else Collection)"

text \<open>
  The body of the loop for an entry that is not skipped. \<^verbatim>\<open>split\<close> exists on a string only
  and \<^verbatim>\<open>find\<close> on an array only: on any other value the call throws. The empty string is
  falsy, so a first other type that is empty counts as none. The member that the factory
  map yields for the type is constructed when it is truthy: a registered constructor, or
  \<^verbatim>\<open>Object\<close>, which returns its first argument, the collection; \<^verbatim>\<open>new\<close> on a member that is no
  constructor throws.
\<close>

definition handleEntry ::
  "'s platform \<Rightarrow> Request \<Rightarrow> DavCollection \<Rightarrow> bool \<Rightarrow> string \<Rightarrow> entry_props
     \<Rightarrow> dav_error + child" where
  "handleEntry pf R c isPartial path ep =
     (case pathname pf R path of
        None \<Rightarrow> Inl TypeError
      | Some u \<Rightarrow>
         (case ep of
            NoProps \<Rightarrow> Inl TypeError
          | Props props \<Rightarrow>
             (case classify props of
                File \<Rightarrow>
                  (case map_of props ''{DAV:}getcontenttype'' of
                     Some (VString s) \<Rightarrow>
                       (let contentType = (case split_on CHR '';'' s of [] \<Rightarrow> [] | w # ws \<Rightarrow> w) in
                        case factory_lookup (p_objectFactoryMapper c) contentType of
                          NoMember \<Rightarrow> Inr (DavObject u props)
                        | Registered f \<Rightarrow>
                            Inr (ObjectFromFactory (factory_name f) u props isPartial)
                        | ObjectConstructor \<Rightarrow> Inr TheCollectionItself
                        | NotAConstructor \<Rightarrow> Inl TypeError)
                   | _ \<Rightarrow> Inl TypeError)
              | Collection \<Rightarrow>
                  (case map_of props ''{DAV:}resourcetype'' of
                     Some (VList types) \<Rightarrow>
                       (case find (\<lambda>r. r \<noteq> ''{'' @ NS_DAV @ ''}collection'') types of
                          None \<Rightarrow> Inr (GenericDavCollection (DavCollection_new pf u props))
                        | Some collectionType \<Rightarrow>
                            if collectionType = []
                            then Inr (GenericDavCollection (DavCollection_new pf u props))
                            else (case factory_lookup (p_collectionFactoryMapper c)
                                         collectionType of
                                    NoMember \<Rightarrow>
                                      Inr (GenericDavCollection (DavCollection_new pf u props))
                                  | Registered f \<Rightarrow>
                                      Inr (CollectionFromFactory (factory_name f) u props)
                                  | ObjectConstructor \<Rightarrow> Inr TheCollectionItself
                                  | NotAConstructor \<Rightarrow> Inl TypeError))
                   | _ \<Rightarrow> Inl TypeError))))"

text \<open>The test that skips the entry of the collection itself.\<close>

definition is_own_path :: "DavCollection \<Rightarrow> string \<Rightarrow> bool" where
  "is_own_path c path = (path = p_url c \<or> path @ ''/'' = DavCollection_url c)"

text \<open>
  The \<^verbatim>\<open>forEach\<close> over the entries, with the local lists \<^verbatim>\<open>index\<close> and \<^verbatim>\<open>children\<close>; an
  exception leaves the loop and the function.
\<close>

fun handleEntries ::
  "'s platform \<Rightarrow> Request \<Rightarrow> DavCollection \<Rightarrow> bool \<Rightarrow> (string \<times> entry_props) list
     \<Rightarrow> string list \<times> child list \<Rightarrow> dav_error + string list \<times> child list" where
  "handleEntries pf R c isPartial [] acc = Inr acc"
| "handleEntries pf R c isPartial (e # es) acc =
     (if is_own_path c (fst e) then handleEntries pf R c isPartial es acc
      else case handleEntry pf R c isPartial (fst e) (snd e) of
             Inl err \<Rightarrow> Inl err
           | Inr ch \<Rightarrow> handleEntries pf R c isPartial es (fst acc @ [fst e], snd acc @ [ch]))"

text \<open>
  \<^verbatim>\<open>_handleMultiStatusResponse\<close> on the entries of the response body: the children, and the
  collection with the resolved paths appended to \<^verbatim>\<open>_childrenNames\<close>.
\<close>

definition handleMultiStatusResponse ::
  "'s platform \<Rightarrow> Request \<Rightarrow> DavCollection \<Rightarrow> (string \<times> entry_props) list \<Rightarrow> bool
     \<Rightarrow> (dav_error + child list) \<times> DavCollection" where
  "handleMultiStatusResponse pf R c entries isPartial =
     (case handleEntries pf R c isPartial entries ([], []) of
        Inl err \<Rightarrow> (Inl err, c)
      | Inr r \<Rightarrow> (Inr (snd r), c\<lparr>p_childrenNames := p_childrenNames c @ fst r\<rparr>))"

text \<open>The decimal form of a number, as the keys of the characters of a string have it.\<close>

fun decimal :: "nat \<Rightarrow> string" where
  "decimal n =
     (if n < 10 then [char_of (48 + n)]
      else decimal (n div 10) @ [char_of (48 + n mod 10)])"

text \<open>
  \<^verbatim>\<open>Object.entries\<close> of a value: the characters of a string and the elements of an array
  under their positions, the members of an object in the order of its keys.
\<close>

fun value_entries :: "jsvalue \<Rightarrow> (string \<times> entry_props) list" where
  "value_entries (VString s) = map (\<lambda>i. (decimal i, NoProps)) [0..<length s]"
| "value_entries (VList xs) = map (\<lambda>i. (decimal i, NoProps)) [0..<length xs]"
| "value_entries (VStruct m) = map (\<lambda>e. (fst e, value_props (snd e))) (Object_entries m)"

text \<open>
  \<^verbatim>\<open>Object.entries(response.body)\<close>: the entries of the reduced map; the entries of the
  data of an answer that was not a multi-status; the members of an unwrapped
  PropertyMap; for undefined a TypeError.
\<close>

definition body_entries :: "response_body \<Rightarrow> dav_error + (string \<times> entry_props) list" where
  "body_entries b =
     (case b of
        MultiStatus m \<Rightarrow> Inr (map (\<lambda>e. (fst e, Props (snd e))) (Object_entries m))
      | Raw v \<Rightarrow> Inr (value_entries v)
      | Unwrapped None \<Rightarrow> Inl TypeError
      | Unwrapped (Some pm) \<Rightarrow> Inr (value_entries (VStruct pm)))"

text \<open>
  The body as the value that \<^verbatim>\<open>find\<close> wraps under the path it asked for and that
  \<^verbatim>\<open>_updatePropsFromServer\<close> stores; \<open>None\<close> is undefined.
\<close>

definition body_value :: "response_body \<Rightarrow> jsvalue option" where
  "body_value b =
     (case b of
        MultiStatus m \<Rightarrow> Some (VStruct (map (\<lambda>e. (fst e, VStruct (snd e))) m))
      | Raw v \<Rightarrow> Some v
      | Unwrapped None \<Rightarrow> None
      | Unwrapped (Some pm) \<Rightarrow> Some (VStruct pm))"


subsection \<open>The operations\<close>

definition findAll ::
  "'s platform \<Rightarrow> Request \<Rightarrow> DavCollection \<Rightarrow> 's net
     \<Rightarrow> (dav_error + child list) \<times> DavCollection \<times> 's net" where
  "findAll pf R c n =
     (case propFind pf R (p_url c) (p_propFindList c) ''1'' [] n of
        (Inl err, n') \<Rightarrow> (Inl err, c, n')
      | (Inr response, n') \<Rightarrow>
          (case body_entries (resp_body response) of
             Inl err \<Rightarrow> (Inl err, c, n')
           | Inr entries \<Rightarrow>
               (case handleMultiStatusResponse pf R c entries False of
                  (r, c') \<Rightarrow> (r, c', n'))))"






text \<open>
  \<^verbatim>\<open>update()\<close>: nothing is sent when no property was changed; otherwise the changed
  properties are encoded by every registered encoder and sent in one PROPPATCH.
\<close>

definition update ::
  "'s platform \<Rightarrow> Request \<Rightarrow> DavCollection \<Rightarrow> 's net
     \<Rightarrow> (dav_error + unit) \<times> DavCollection \<times> 's net" where
  "update pf R c n =
     (if p_updatedProperties c = [] then (Inr (), c, n)
      else
        (let properties = fold (\<lambda>k acc. AList.update k (map_of (p_props c) k) acc)
                               (p_updatedProperties c) [];
             propSet = foldl (\<lambda>arr p. arr @ p properties) [] (p_propSetFactory c);
             skeleton = getRootSkeleton (NS_DAV, ''propertyupdate'')
                          [(NS_DAV, ''set''), (NS_DAV, ''prop'')] propSet;
             data = serialize pf skeleton
         in case propPatch pf R (p_url c) [] (Some data) n of
              (Inl err, n') \<Rightarrow> (Inl err, c, n')
            | (Inr response, n') \<Rightarrow> (Inr (), c, n')))"


text \<open>
  \<^verbatim>\<open>_updatePropsFromServer()\<close>: the body of a PROPFIND of depth 0 is stored as \<^verbatim>\<open>_props\<close>,
  whatever it is. The list \<^verbatim>\<open>this.constructor.getPropFindList()\<close> of the class of the
  collection is an argument. With a body that is no object the collection is outside the
  record.
\<close>

definition updatePropsFromServer ::
  "'s platform \<Rightarrow> Request \<Rightarrow> DavCollection \<Rightarrow> (string \<times> string) list \<Rightarrow> 's net
     \<Rightarrow> (dav_error + unit) \<times> node \<times> 's net" where
  "updatePropsFromServer pf R c propFindList n =
     (case propFind pf R (DavCollection_url c) propFindList ''0'' [] n of
        (Inl err, n') \<Rightarrow> (Inl err, Node c, n')
      | (Inr response, n') \<Rightarrow>
          (Inr (),
           (case body_value (resp_body response) of
              Some (VStruct m) \<Rightarrow> Node (c\<lparr>p_props := m\<rparr>)
            | _ \<Rightarrow> Outside (Some (VString (p_url c)))),
           n'))"

section \<open>The publishable collection\<close>

definition davCollectionPublishable_new ::
  "'s platform \<Rightarrow> string \<Rightarrow> PropertyMap \<Rightarrow> DavCollection" where
  "davCollectionPublishable_new pf u props =
     exposeProperty (DavCollection_new pf u props) ''publishURL'' NS_CALENDARSERVER
       ''publish-url'' False"

definition davCollectionPublishable_getPropFindList ::
  "(string \<times> string) list \<Rightarrow> (string \<times> string) list" where
  "davCollectionPublishable_getPropFindList base = base @ [(NS_CALENDARSERVER, ''publish-url'')]"

definition publish ::
  "'s platform \<Rightarrow> Request \<Rightarrow> DavCollection \<Rightarrow> (string \<times> string) list \<Rightarrow> 's net
     \<Rightarrow> (dav_error + unit) \<times> node \<times> 's net" where
  "publish pf R c propFindList n =
     (case post pf R (p_url c) [(''Content-Type'', ''application/xml; charset=utf-8'')]
             (Some (serialize pf (getRootSkeleton (NS_CALENDARSERVER, ''publish-calendar'')
                                    [] []))) n of
        (Inl err, n') \<Rightarrow> (Inl err, Node c, n')
      | (Inr response, n') \<Rightarrow> updatePropsFromServer pf R c propFindList n')"

definition unpublish ::
  "'s platform \<Rightarrow> Request \<Rightarrow> DavCollection \<Rightarrow> 's net
     \<Rightarrow> (dav_error + unit) \<times> DavCollection \<times> 's net" where
  "unpublish pf R c n =
     (case post pf R (p_url c) [(''Content-Type'', ''application/xml; charset=utf-8'')]
             (Some (serialize pf (getRootSkeleton (NS_CALENDARSERVER, ''unpublish-calendar'')
                                    [] []))) n of
        (Inl err, n') \<Rightarrow> (Inl err, c, n')
      | (Inr response, n') \<Rightarrow>
          (Inr (), c\<lparr>p_props :=
                       AList.delete ''{http://calendarserver.org/ns/}publish-url'' (p_props c)\<rparr>,
           n'))"

section \<open>Notions used to state the properties\<close>

text \<open>A response with its unsuccessful propstat blocks taken out.\<close>

definition drop_unsuccessful :: "response_element \<Rightarrow> response_element" where
  "drop_unsuccessful r = r\<lparr>propstats := filter propstat_successful (propstats r)\<rparr>"

text \<open>One step of the loop over the responses.\<close>

definition response_step ::
  "Parser \<Rightarrow> response_element \<Rightarrow> PropertyMap jsobject \<Rightarrow> PropertyMap jsobject" where
  "response_step P r result = AList.update (href r) (parsePropStats P (propstats r) []) result"

section \<open>Concrete inputs\<close>

text \<open>
  A decoder that knows the properties of the \<^verbatim>\<open>DAV:\<close> namespace: the resource type is read
  as the list of the names in its content, every other property as its text.
\<close>

definition ex_parser :: Parser where
  "ex_parser =
     \<lparr>canParse = (\<lambda>k. take 6 k = ''{DAV:}''),
      parse = (\<lambda>n. if localName n = ''resourcetype''
                     then VList (filter (\<lambda>w. w \<noteq> []) (split_on CHR '' '' (content n)))
                     else VString (content n))\<rparr>"

definition ex_request :: Request where
  "ex_request = \<lparr>baseUrl = ''https://host'', parser = ex_parser\<rparr>"

definition dav_prop :: "string \<Rightarrow> string \<Rightarrow> prop_element" where
  "dav_prop n v = \<lparr>namespaceURI = Some ''DAV:'', localName = n, content = v\<rparr>"

text \<open>One response whose second propstat block carries the status 404.\<close>

definition ex_doc_mixed :: "response_element list" where
  "ex_doc_mixed =
     [\<lparr>href = ''/dav/a'',
       propstats =
         [\<lparr>status_line = ''HTTP/1.1 200 OK'',
           prop_elements = [dav_prop ''displayname'' ''A'']\<rparr>,
          \<lparr>status_line = ''HTTP/1.1 404 Not Found'',
           prop_elements = [dav_prop ''owner'' ''O'']\<rparr>]\<rparr>]"

text \<open>Two responses for the same path; only the first one carries the owner.\<close>

definition ex_response_first :: response_element where
  "ex_response_first =
     \<lparr>href = ''/dav/a'',
      propstats =
        [\<lparr>status_line = ''HTTP/1.1 200 OK'',
          prop_elements = [dav_prop ''displayname'' ''A'', dav_prop ''owner'' ''O'']\<rparr>]\<rparr>"

definition ex_response_second :: response_element where
  "ex_response_second =
     \<lparr>href = ''/dav/a'',
      propstats =
        [\<lparr>status_line = ''HTTP/1.1 200 OK'',
          prop_elements = [dav_prop ''displayname'' ''B'']\<rparr>]\<rparr>"

definition ex_doc_twice :: "response_element list" where
  "ex_doc_twice = [ex_response_first, ex_response_second]"

text \<open>A rendering of the element tree, standing in for the serialiser.\<close>

fun ex_serialize :: "xml \<Rightarrow> string" where
  "ex_serialize (Element n as cs v) =
     ''<{'' @ fst n @ ''}'' @ snd n @ ''>''
     @ (case v of Some (VString s) \<Rightarrow> s | _ \<Rightarrow> [])
     @ concat (map ex_serialize cs) @ ''</>''"

text \<open>An encoder that knows the display name, standing in for the one of the collection.\<close>

definition ex_davCollectionPropSet :: propset where
  "ex_davCollectionPropSet props =
     concat (map (\<lambda>e. if fst e = ''{DAV:}displayname''
                       then [Element (NS_DAV, ''displayname'') [] [] (snd e)] else [])
                 (Object_entries props))"

text \<open>
  A platform whose server answers every request by \<open>answer\<close> and whose DOM parser reads
  every body as \<open>doc\<close>; the URL constructor is the identity on paths.
\<close>

definition ex_platform ::
  "(http_request \<Rightarrow> axios_error + axios_response) \<Rightarrow> response_element list \<Rightarrow> unit platform" where
  "ex_platform answer doc =
     \<lparr>url_pathname = (\<lambda>u b. Some u),
      url_href = (\<lambda>u b. Some (b @ u)),
      xpath_responses = (\<lambda>t. doc),
      serialize = ex_serialize,
      axios_request = (\<lambda>s rq. (answer rq, s)),
      davCollectionPropSet = ex_davCollectionPropSet,
      DavObject_getPropFindList =
        [(NS_DAV, ''getcontenttype''), (NS_DAV, ''getetag''), (NS_DAV, ''resourcetype'')],
      StringUtility_uri = (\<lambda>token isAvailable. token)\<rparr>"

definition ex_net :: "unit net" where
  "ex_net = \<lparr>server = (), sent = []\<rparr>"

text \<open>The server that answers 207 to every request.\<close>

definition answer_207 :: "http_request \<Rightarrow> axios_error + axios_response" where
  "answer_207 rq = Inr \<lparr>ax_status = 207, ax_data = VString ''<multistatus/>''\<rparr>"

section \<open>Notions used to state the properties of the collection\<close>












section \<open>Concrete inputs for the collection\<close>

text \<open>A collection constructed from a url without the trailing separator.\<close>

definition ex_collection :: DavCollection where
  "ex_collection =
     DavCollection_new (ex_platform answer_207 [])
       ''/dav/col'' [(''{DAV:}displayname'', VString ''Old'')]"




text \<open>
  The server that rejects every request with the given error, and one error for each
  branch of the handler: a cancelled request, a request without an answer, the statuses
  404 and 503, and a status outside both ranges.
\<close>

definition answer_error :: "axios_error \<Rightarrow> http_request \<Rightarrow> axios_error + axios_response" where
  "answer_error e rq = Inl e"

definition ex_error_cancelled :: axios_error where
  "ex_error_cancelled =
     \<lparr>isCancel = True, error_request = False, error_status = None, error_data = None\<rparr>"

definition ex_error_no_response :: axios_error where
  "ex_error_no_response =
     \<lparr>isCancel = False, error_request = True, error_status = None, error_data = None\<rparr>"

definition ex_error_404 :: axios_error where
  "ex_error_404 =
     \<lparr>isCancel = False, error_request = False, error_status = Some 404,
      error_data = Some ''Not Found''\<rparr>"

definition ex_error_503 :: axios_error where
  "ex_error_503 =
     \<lparr>isCancel = False, error_request = False, error_status = Some 503,
      error_data = Some ''Unavailable''\<rparr>"

definition ex_error_302 :: axios_error where
  "ex_error_302 =
     \<lparr>isCancel = False, error_request = False, error_status = Some 302,
      error_data = Some ''Found''\<rparr>"

text \<open>A publishable collection that holds a publish url.\<close>

definition ex_published :: DavCollection where
  "ex_published =
     davCollectionPublishable_new (ex_platform answer_207 []) ''/dav/cal/''
       [(''{DAV:}displayname'', VString ''Cal''),
        (''{http://calendarserver.org/ns/}publish-url'', VString ''https://host/p/1'')]"

text \<open>
  The entries of a depth-1 result: the collection itself, echoed without and with the
  trailing separator, and one child.
\<close>

definition ex_entries :: "(string \<times> entry_props) list" where
  "ex_entries =
     [(''/dav/col'', Props [(''{DAV:}resourcetype'', VList [''{DAV:}collection''])]),
      (''/dav/col/'', Props [(''{DAV:}resourcetype'', VList [''{DAV:}collection''])]),
      (''/dav/col/a'', Props [(''{DAV:}getcontenttype'', VString ''text/vcard'')])]"

text \<open>A body whose only response reports both requested properties as not found.\<close>

definition ex_doc_not_found :: "response_element list" where
  "ex_doc_not_found =
     [\<lparr>href = ''/dav/col/x'',
       propstats =
         [\<lparr>status_line = ''HTTP/1.1 404 Not Found'',
           prop_elements = [dav_prop ''resourcetype'' '''',
                            dav_prop ''getcontenttype'' '''']\<rparr>]\<rparr>]"

text \<open>
  An error for an answer with the status 404 that carries the request object of the
  answered request as well.
\<close>

definition ex_error_404_answered :: axios_error where
  "ex_error_404_answered =
     \<lparr>isCancel = False, error_request = True, error_status = Some 404, error_data = None\<rparr>"


text \<open>
  A platform like \<open>ex_platform\<close> whose URL constructor resolves an absolute url that
  starts with the base url to its path.
\<close>

definition ex_platform_resolving ::
  "(http_request \<Rightarrow> axios_error + axios_response) \<Rightarrow> response_element list \<Rightarrow> unit platform" where
  "ex_platform_resolving answer doc =
     (ex_platform answer doc)
       \<lparr>url_pathname := (\<lambda>u b. Some (if take (length b) u = b then drop (length b) u else u))\<rparr>"

text \<open>
  The body of an answer of depth 1 whose paths are absolute urls: the collection itself
  and one child.
\<close>

definition ex_doc_absolute :: "response_element list" where
  "ex_doc_absolute =
     [\<lparr>href = ''https://host/dav/col/'',
       propstats =
         [\<lparr>status_line = ''HTTP/1.1 200 OK'',
           prop_elements = [dav_prop ''displayname'' ''Col'',
                            dav_prop ''resourcetype'' ''{DAV:}collection'']\<rparr>]\<rparr>,
      \<lparr>href = ''https://host/dav/col/a'',
       propstats =
         [\<lparr>status_line = ''HTTP/1.1 200 OK'',
           prop_elements = [dav_prop ''getcontenttype'' ''text/plain'']\<rparr>]\<rparr>]"

section \<open>Properties of the multi-status reducer\<close>

lemma parseProps_Cons:
  "parseProps P (n # ns) acc =
     parseProps P ns (if canParse P (clark_name n)
                      then AList.update (clark_name n) (parse P n) acc else acc)"
  by (simp add: parseProps_def)

lemma parseProps_origin:
  "map_of (parseProps P ns acc) k = Some v \<Longrightarrow>
     map_of acc k = Some v \<or> (\<exists>n\<in>set ns. clark_name n = k \<and> canParse P k \<and> parse P n = v)"
proof (induction ns arbitrary: acc)
  case Nil
  then show ?case by (simp add: parseProps_def)
next
  case (Cons n ns)
  from Cons.prems
  have "map_of (parseProps P ns (if canParse P (clark_name n)
          then AList.update (clark_name n) (parse P n) acc else acc)) k = Some v"
    by (simp add: parseProps_Cons)
  from Cons.IH [OF this] show ?case
    by (auto simp: update_conv' split: if_splits)
qed

lemma parsePropStats_Nil: "parsePropStats P [] acc = acc"
  by (simp add: parsePropStats_def)

lemma parsePropStats_Cons:
  "parsePropStats P (ps # blocks) acc =
     parsePropStats P blocks
       (if \<not> propstat_successful ps then acc else parseProps P (prop_elements ps) acc)"
  by (simp add: parsePropStats_def)

lemma parsePropStats_origin:
  "map_of (parsePropStats P blocks acc) k = Some v \<Longrightarrow>
     map_of acc k = Some v \<or>
     (\<exists>ps\<in>set blocks. propstat_successful ps \<and>
        (\<exists>n\<in>set (prop_elements ps). clark_name n = k \<and> canParse P k \<and> parse P n = v))"
proof (induction blocks arbitrary: acc)
  case Nil
  then show ?case by (simp add: parsePropStats_Nil)
next
  case (Cons ps blocks)
  show ?case
  proof (cases "propstat_successful ps")
    case True
    with Cons.prems
    have "map_of (parsePropStats P blocks (parseProps P (prop_elements ps) acc)) k = Some v"
      by (simp add: parsePropStats_Cons)
    from Cons.IH [OF this] True show ?thesis
      using parseProps_origin by fastforce
  next
    case False
    with Cons.prems have "map_of (parsePropStats P blocks acc) k = Some v"
      by (simp add: parsePropStats_Cons)
    from Cons.IH [OF this] show ?thesis by auto
  qed
qed

lemma parsePropStats_filter:
  "parsePropStats P (filter propstat_successful blocks) acc = parsePropStats P blocks acc"
  by (induction blocks arbitrary: acc) (simp_all add: parsePropStats_Nil parsePropStats_Cons)

lemma reduceResponses_fold: "reduceResponses P doc = fold (response_step P) doc []"
proof -
  have "response_step P =
          (\<lambda>r result. AList.update (href r) (parsePropStats P (propstats r) []) result)"
    by (simp add: fun_eq_iff response_step_def)
  then show ?thesis
    by (simp add: reduceResponses_def)
qed

lemma response_step_drop: "response_step P (drop_unsuccessful r) = response_step P r"
  by (simp add: response_step_def drop_unsuccessful_def parsePropStats_filter fun_eq_iff)

lemma fold_response_step_drop:
  "fold (response_step P) (map drop_unsuccessful doc) acc = fold (response_step P) doc acc"
  by (induction doc arbitrary: acc) (simp_all add: response_step_drop)

lemma find_snoc:
  "find Q (xs @ [x]) =
     (case find Q xs of Some y \<Rightarrow> Some y | None \<Rightarrow> if Q x then Some x else None)"
  by (induction xs) simp_all

lemma fold_response_step_lookup:
  "map_of (fold (response_step P) doc acc) h =
     (case find (\<lambda>r. href r = h) (rev doc) of
        Some r \<Rightarrow> Some (parsePropStats P (propstats r) [])
      | None \<Rightarrow> map_of acc h)"
proof (induction doc arbitrary: acc)
  case Nil
  then show ?case by simp
next
  case (Cons r doc)
  have "map_of (response_step P r acc) h =
          (if href r = h then Some (parsePropStats P (propstats r) []) else map_of acc h)"
    by (simp add: response_step_def update_conv')
  then show ?case
    by (simp add: Cons.IH find_snoc split: option.splits)
qed

lemma reduceResponses_lookup:
  "map_of (reduceResponses P doc) h =
     map_option (\<lambda>r. parsePropStats P (propstats r) []) (find (\<lambda>r. href r = h) (rev doc))"
  by (simp add: reduceResponses_fold fold_response_step_lookup split: option.splits)

lemma find_rev_SomeD: "find Q (rev xs) = Some x \<Longrightarrow> x \<in> set xs \<and> Q x"
  by (metis find_Some_iff nth_mem set_rev)

lemma evaluate_status_lines:
  "getStatusCodeFromString ''HTTP/1.1 200 OK'' = Some 200"
  "getStatusCodeFromString ''HTTP/1.1 404 Not Found'' = Some 404"
  by (simp_all add: getStatusCodeFromString_def parseInt_def is_white_space_def is_digit_def
        digits_value_def digit_value_def)

lemma evaluate_propstat_successful:
  "propstat_successful \<lparr>status_line = ''HTTP/1.1 200 OK'', prop_elements = ns\<rparr>"
  "\<not> propstat_successful \<lparr>status_line = ''HTTP/1.1 404 Not Found'', prop_elements = ns\<rparr>"
  by (simp_all add: propstat_successful_def wasRequestSuccessful_def evaluate_status_lines)

lemma evaluate_ex_doc_mixed:
  "reduceResponses ex_parser ex_doc_mixed = [(''/dav/a'', [(''{DAV:}displayname'', VString ''A'')])]"
  by (simp add: reduceResponses_def ex_doc_mixed_def parsePropStats_def parseProps_def
        evaluate_propstat_successful ex_parser_def dav_prop_def clark_name_def)

text \<open>
  C1. The result of \<^verbatim>\<open>_parseMultiStatusResponse\<close> is the one obtained from the body with
  every propstat block taken out whose status line does not parse to a code in
  [200,300): such a block contributes nothing. Every property in the PropertyMap of a path
  was decoded from a property element under a propstat block of a response with that
  href whose status code is in [200,300).
\<close>

theorem parseMultiStatusResponse_only_successful_propstats:
  "parseMultiStatusResponse pf R text =
     reduceResponses (parser R) (map drop_unsuccessful (xpath_responses pf text))
   \<and> (\<forall>h pm k v.
        map_of (parseMultiStatusResponse pf R text) h = Some pm \<longrightarrow> map_of pm k = Some v \<longrightarrow>
        (\<exists>r\<in>set (xpath_responses pf text). href r = h \<and>
           (\<exists>ps\<in>set (propstats r).
              (\<exists>code. getStatusCodeFromString (status_line ps) = Some code
                       \<and> 200 \<le> code \<and> code < 300) \<and>
              (\<exists>n\<in>set (prop_elements ps).
                 clark_name n = k \<and> canParse (parser R) k \<and> parse (parser R) n = v))))"
proof (intro conjI allI impI)
  show "parseMultiStatusResponse pf R text =
          reduceResponses (parser R) (map drop_unsuccessful (xpath_responses pf text))"
    by (simp add: parseMultiStatusResponse_def reduceResponses_fold fold_response_step_drop)
next
  fix h pm k v
  let ?P = "parser R" and ?doc = "xpath_responses pf text"
  assume a: "map_of (parseMultiStatusResponse pf R text) h = Some pm"
    and b: "map_of pm k = Some v"
  from a obtain r where r: "find (\<lambda>r. href r = h) (rev ?doc) = Some r"
    and pm: "pm = parsePropStats ?P (propstats r) []"
    by (auto simp: parseMultiStatusResponse_def reduceResponses_lookup)
  from find_rev_SomeD [OF r] have rin: "r \<in> set ?doc" and rh: "href r = h"
    by simp_all
  from b pm have "map_of (parsePropStats ?P (propstats r) []) k = Some v"
    by simp
  from parsePropStats_origin [OF this]
  obtain ps where ps: "ps \<in> set (propstats r)" "propstat_successful ps"
    "\<exists>n\<in>set (prop_elements ps). clark_name n = k \<and> canParse ?P k \<and> parse ?P n = v"
    by auto
  from ps(2)
  have "\<exists>code. getStatusCodeFromString (status_line ps) = Some code \<and> 200 \<le> code \<and> code < 300"
    by (auto simp: propstat_successful_def wasRequestSuccessful_def split: option.splits)
  with ps(1,3) rin rh
  show "\<exists>r\<in>set ?doc. href r = h \<and>
           (\<exists>ps\<in>set (propstats r).
              (\<exists>code. getStatusCodeFromString (status_line ps) = Some code
                       \<and> 200 \<le> code \<and> code < 300) \<and>
              (\<exists>n\<in>set (prop_elements ps).
                 clark_name n = k \<and> canParse ?P k \<and> parse ?P n = v))"
    by blast
qed

theorem parseMultiStatusResponse_only_successful_propstats_witness:
  "parseMultiStatusResponse (ex_platform answer_207 ex_doc_mixed) ex_request ''<multistatus/>''
     = [(''/dav/a'', [(''{DAV:}displayname'', VString ''A'')])]
   \<and> (\<exists>r\<in>set ex_doc_mixed. href r = ''/dav/a'' \<and>
        (\<exists>ps\<in>set (propstats r).
           (\<exists>code. getStatusCodeFromString (status_line ps) = Some code
                    \<and> 200 \<le> code \<and> code < 300) \<and>
           (\<exists>n\<in>set (prop_elements ps).
              clark_name n = ''{DAV:}displayname'' \<and> canParse ex_parser ''{DAV:}displayname''
              \<and> parse ex_parser n = VString ''A'')))"
proof -
  let ?pf = "ex_platform answer_207 ex_doc_mixed"
  have res: "parseMultiStatusResponse ?pf ex_request ''<multistatus/>''
               = [(''/dav/a'', [(''{DAV:}displayname'', VString ''A'')])]"
    by (simp add: parseMultiStatusResponse_def ex_platform_def ex_request_def evaluate_ex_doc_mixed)
  have h1: "map_of (parseMultiStatusResponse ?pf ex_request ''<multistatus/>'') ''/dav/a''
              = Some [(''{DAV:}displayname'', VString ''A'')]"
    by (simp add: res)
  have h2: "map_of [(''{DAV:}displayname'', VString ''A'')] ''{DAV:}displayname''
              = Some (VString ''A'')"
    by simp
  have doc: "xpath_responses ?pf ''<multistatus/>'' = ex_doc_mixed"
    and par: "parser ex_request = ex_parser"
    by (simp_all add: ex_platform_def ex_request_def)
  from parseMultiStatusResponse_only_successful_propstats
         [of ?pf ex_request "''<multistatus/>''", THEN conjunct2, rule_format, OF h1 h2]
  show ?thesis
    unfolding doc par using res by simp
qed

lemma parseProps_lookup:
  "map_of (parseProps P ns acc) k =
     (case find (\<lambda>n. clark_name n = k \<and> canParse P k) (rev ns) of
        Some n \<Rightarrow> Some (parse P n)
      | None \<Rightarrow> map_of acc k)"
proof (induction ns arbitrary: acc)
  case Nil
  then show ?case by (simp add: parseProps_def)
next
  case (Cons n ns)
  show ?case
    by (auto simp add: parseProps_Cons Cons.IH find_snoc update_conv' split: option.splits)
qed

lemma find_append:
  "find Q (xs @ ys) = (case find Q xs of Some y \<Rightarrow> Some y | None \<Rightarrow> find Q ys)"
  by (induction xs) simp_all

lemma parsePropStats_lookup:
  "map_of (parsePropStats P blocks acc) k =
     (case find (\<lambda>n. clark_name n = k \<and> canParse P k)
             (rev (concat (map prop_elements (filter propstat_successful blocks)))) of
        Some n \<Rightarrow> Some (parse P n)
      | None \<Rightarrow> map_of acc k)"
proof (induction blocks arbitrary: acc)
  case Nil
  then show ?case by (simp add: parsePropStats_Nil)
next
  case (Cons ps blocks)
  show ?case
    by (simp add: parsePropStats_Cons Cons.IH parseProps_lookup find_append
          split: option.splits)
qed

lemma evaluate_ex_doc_twice:
  "reduceResponses ex_parser ex_doc_twice
     = [(''/dav/a'', [(''{DAV:}displayname'', VString ''B'')])]"
  by (simp add: reduceResponses_def ex_doc_twice_def ex_response_first_def
        ex_response_second_def parsePropStats_def parseProps_def
        evaluate_propstat_successful ex_parser_def dav_prop_def clark_name_def)

text \<open>
  C7, as the claim states it, fails: the map of the first response for \<^verbatim>\<open>/dav/a\<close> holds the
  owner, the second response for the same path does not name the owner, and the reduced
  result for \<^verbatim>\<open>/dav/a\<close> holds the display name of the second response only. The owner, a
  key present only in the earlier response, is not retained.
\<close>

theorem parseMultiStatusResponse_earlier_response_lost:
  "map_of (parsePropStats ex_parser (propstats ex_response_first) []) ''{DAV:}owner''
     = Some (VString ''O'')
   \<and> parseMultiStatusResponse (ex_platform answer_207 ex_doc_twice) ex_request ''<multistatus/>''
     = [(''/dav/a'', [(''{DAV:}displayname'', VString ''B'')])]"
proof
  show "map_of (parsePropStats ex_parser (propstats ex_response_first) []) ''{DAV:}owner''
          = Some (VString ''O'')"
    by (simp add: ex_response_first_def parsePropStats_def parseProps_def
          evaluate_propstat_successful ex_parser_def dav_prop_def clark_name_def)
  show "parseMultiStatusResponse (ex_platform answer_207 ex_doc_twice) ex_request
          ''<multistatus/>'' = [(''/dav/a'', [(''{DAV:}displayname'', VString ''B'')])]"
    by (simp add: parseMultiStatusResponse_def ex_platform_def ex_request_def
          evaluate_ex_doc_twice)
qed

text \<open>
  C7, amended. When a href appears in several responses of one body, the PropertyMap of
  that path is the one built from the last of these responses alone (the assignment
  replaces the whole map). Within one response, the value of a key is the one decoded
  from the last accepted property element of that name under its successful propstat
  blocks.
\<close>

theorem parseMultiStatusResponse_last_response_wins:
  "map_of (parseMultiStatusResponse pf R text) h =
     map_option (\<lambda>r. parsePropStats (parser R) (propstats r) [])
       (find (\<lambda>r. href r = h) (rev (xpath_responses pf text)))
   \<and> map_of (parsePropStats (parser R) blocks []) k =
       map_option (parse (parser R))
         (find (\<lambda>n. clark_name n = k \<and> canParse (parser R) k)
            (rev (concat (map prop_elements (filter propstat_successful blocks)))))"
  by (simp add: parseMultiStatusResponse_def reduceResponses_lookup parsePropStats_lookup
        split: option.splits)

section \<open>Properties of the transport\<close>

lemma request_rejected:
  assumes "absoluteUrl pf R u = Some target"
    and "axios_request pf (server n)
           \<lparr>req_url = target, req_method = method,
            req_headers = Object_assign (Object_assign [] getDefaultHeaders) headers,
            req_data = data\<rparr> = (Inl error, s')"
  shows "request pf R method u headers data n
           = (Inl (onRejected error),
              \<lparr>server = s',
               sent = sent n @ [\<lparr>req_url = target, req_method = method,
                 req_headers = Object_assign (Object_assign [] getDefaultHeaders) headers,
                 req_data = data\<rparr>]\<rparr>)"
  using assms by (simp add: request_def send_def Let_def)

lemma request_fulfilled:
  assumes "absoluteUrl pf R u = Some target"
    and "axios_request pf (server n)
           \<lparr>req_url = target, req_method = method,
            req_headers = Object_assign (Object_assign [] getDefaultHeaders) headers,
            req_data = data\<rparr> = (Inr response, s')"
  shows "request pf R method u headers data n
           = (Inr (onFulfilled pf R method
                     (Object_assign (Object_assign [] getDefaultHeaders) headers) response),
              \<lparr>server = s',
               sent = sent n @ [\<lparr>req_url = target, req_method = method,
                 req_headers = Object_assign (Object_assign [] getDefaultHeaders) headers,
                 req_data = data\<rparr>]\<rparr>)"
  using assms by (simp add: request_def send_def Let_def)

lemma request_invalid_url:
  "absoluteUrl pf R u = None \<Longrightarrow> request pf R method u headers data n = (Inl TypeError, n)"
  by (simp add: request_def Let_def)


lemma request_rejection_order:
  assumes "absoluteUrl pf R u = Some target"
    and "axios_request pf (server n)
           \<lparr>req_url = target, req_method = method,
            req_headers = Object_assign (Object_assign [] getDefaultHeaders) headers,
            req_data = data\<rparr> = (Inl error, s')"
  shows "\<exists>e. fst (request pf R method u headers data n) = Inl e \<and>
     (isCancel error \<longrightarrow> e = NetworkRequestAbortedError None (Some (- 1))) \<and>
     (\<not> isCancel error \<and> error_request error
        \<longrightarrow> e = NetworkRequestError None (Some (- 1))) \<and>
     (\<not> isCancel error \<and> \<not> error_request error
        \<and> (\<exists>s. error_status error = Some s \<and> 400 \<le> s \<and> s < 500)
        \<longrightarrow> e = NetworkRequestClientError (error_data error) (error_status error)) \<and>
     (\<not> isCancel error \<and> \<not> error_request error
        \<and> (\<exists>s. error_status error = Some s \<and> 500 \<le> s \<and> s < 600)
        \<longrightarrow> e = NetworkRequestServerError (error_data error) (error_status error)) \<and>
     (\<not> isCancel error \<and> \<not> error_request error
        \<and> \<not> (\<exists>s. error_status error = Some s \<and> 400 \<le> s \<and> s < 600)
        \<longrightarrow> e = NetworkRequestHttpError (error_data error) (error_status error))"
proof -
  have "fst (request pf R method u headers data n) = Inl (onRejected error)"
    using request_rejected [OF assms] by simp
  then show ?thesis
    by (auto simp: onRejected_def split: option.splits)
qed

lemma evaluate_rejecting_platform:
  "absoluteUrl (ex_platform (answer_error e) []) ex_request ''/dav/col/''
     = Some ''https://host/dav/col/''"
  "axios_request (ex_platform (answer_error e) []) (server ex_net)
     \<lparr>req_url = ''https://host/dav/col/'', req_method = ''PROPPATCH'',
      req_headers = Object_assign (Object_assign [] getDefaultHeaders) [],
      req_data = None\<rparr> = (Inl e, ())"
  by (simp_all add: absoluteUrl_def ex_platform_def ex_request_def answer_error_def)

lemma evaluate_request_rejected:
  "fst (request (ex_platform (answer_error e) []) ex_request ''PROPPATCH''
          ''/dav/col/'' [] None ex_net) = Inl (onRejected e)"
  using request_rejected [OF evaluate_rejecting_platform, of e] by simp

text \<open>
  Without a request object the kind of the error follows the status: a cancelled
  request, a status of each range and a status outside both.
\<close>

lemma evaluate_rejections_without_request:
  "fst (request (ex_platform (answer_error ex_error_cancelled) []) ex_request ''PROPPATCH''
          ''/dav/col/'' [] None ex_net)
     = Inl (NetworkRequestAbortedError None (Some (- 1)))"
  "fst (request (ex_platform (answer_error ex_error_no_response) []) ex_request ''PROPPATCH''
          ''/dav/col/'' [] None ex_net)
     = Inl (NetworkRequestError None (Some (- 1)))"
  "fst (request (ex_platform (answer_error ex_error_404) []) ex_request ''PROPPATCH''
          ''/dav/col/'' [] None ex_net)
     = Inl (NetworkRequestClientError (Some ''Not Found'') (Some 404))"
  "fst (request (ex_platform (answer_error ex_error_503) []) ex_request ''PROPPATCH''
          ''/dav/col/'' [] None ex_net)
     = Inl (NetworkRequestServerError (Some ''Unavailable'') (Some 503))"
  "fst (request (ex_platform (answer_error ex_error_302) []) ex_request ''PROPPATCH''
          ''/dav/col/'' [] None ex_net)
     = Inl (NetworkRequestHttpError (Some ''Found'') (Some 302))"
  by (simp_all add: evaluate_request_rejected onRejected_def ex_error_cancelled_def
        ex_error_no_response_def ex_error_404_def ex_error_503_def ex_error_302_def)

text \<open>
  C8. The handler tests the request object of the error before its status, and axios
  puts the request object into the error of an answered request as well. For an answer
  with the status 404 the error carries both, and \<^verbatim>\<open>request\<close> is rejected with a
  NetworkRequestError with the body null and the status -1, not with a
  NetworkRequestClientError with the status 404.
\<close>

theorem request_answered_404_is_network_error:
  "error_status ex_error_404_answered = Some 404
   \<and> fst (request (ex_platform (answer_error ex_error_404_answered) []) ex_request ''PROPPATCH''
          ''/dav/col/'' [] None ex_net)
     = Inl (NetworkRequestError None (Some (- 1)))"
  by (simp add: evaluate_request_rejected onRejected_def ex_error_404_answered_def)

section \<open>Invariants and frame properties of the collection\<close>

lemma DavCollection_new_url:
  "p_url (DavCollection_new pf u props) = (if u = [] \<or> last u \<noteq> CHR ''/'' then u @ ''/'' else u)"
  by (simp add: DavCollection_new_def Let_def exposeProperty_def registerPropSetFactory_def)



























lemma unpublish_fulfilled:
  "fst (unpublish pf R c n) = Inr () \<Longrightarrow>
     fst (snd (unpublish pf R c n))
       = c\<lparr>p_props := AList.delete ''{http://calendarserver.org/ns/}publish-url'' (p_props c)\<rparr>"
  by (auto simp: unpublish_def split: prod.splits sum.splits)

lemma delete_filter: "AList.delete k al = filter (\<lambda>e. fst e \<noteq> k) al"
  by (induction al) (auto simp: AList.delete_eq)

text \<open>
  C10. When \<^verbatim>\<open>unpublish()\<close> resolves, the property map of the node is the old one without
  the key of the publish url: every other key keeps its value and its place, the list of
  the changed properties is as before, and so is every other field of the node.
\<close>

theorem unpublish_removes_publish_url_only:
  assumes "fst (unpublish pf R c n) = Inr ()"
  shows "map_of (p_props (fst (snd (unpublish pf R c n)))) =
           (map_of (p_props c))(''{http://calendarserver.org/ns/}publish-url'' := None)
         \<and> p_props (fst (snd (unpublish pf R c n)))
             = filter (\<lambda>e. fst e \<noteq> ''{http://calendarserver.org/ns/}publish-url'') (p_props c)
         \<and> p_updatedProperties (fst (snd (unpublish pf R c n))) = p_updatedProperties c
         \<and> fst (snd (unpublish pf R c n))
             = c\<lparr>p_props := p_props (fst (snd (unpublish pf R c n)))\<rparr>"
  using unpublish_fulfilled [OF assms]
    delete_conv' [of "''{http://calendarserver.org/ns/}publish-url''" "p_props c"]
  by (simp add: delete_filter)

lemma evaluate_unpublish:
  "fst (unpublish (ex_platform answer_207 []) ex_request ex_published ex_net) = Inr ()"
  by (simp add: unpublish_def post_def request_def send_def absoluteUrl_def ex_platform_def
        ex_request_def answer_207_def Let_def split: prod.splits)

theorem unpublish_removes_publish_url_only_witness:
  "fst (unpublish (ex_platform answer_207 []) ex_request ex_published ex_net) = Inr ()
   \<and> p_props ex_published
       = [(''{DAV:}displayname'', VString ''Cal''),
          (''{http://calendarserver.org/ns/}publish-url'', VString ''https://host/p/1'')]
   \<and> p_props (fst (snd (unpublish (ex_platform answer_207 []) ex_request ex_published ex_net)))
       = [(''{DAV:}displayname'', VString ''Cal'')]
   \<and> p_updatedProperties
        (fst (snd (unpublish (ex_platform answer_207 []) ex_request ex_published ex_net))) = []"
proof -
  have p: "p_props ex_published
       = [(''{DAV:}displayname'', VString ''Cal''),
          (''{http://calendarserver.org/ns/}publish-url'', VString ''https://host/p/1'')]"
    and d: "p_updatedProperties ex_published = []"
    by (simp_all add: ex_published_def davCollectionPublishable_new_def exposeProperty_def
          DavCollection_new_def registerPropSetFactory_def Let_def)
  from unpublish_removes_publish_url_only [OF evaluate_unpublish] evaluate_unpublish p d show ?thesis
    by simp
qed

section \<open>Properties of update\<close>







lemma evaluate_ex_collection_fields:
  "p_url ex_collection = ''/dav/col/''"
  "p_propSetFactory ex_collection = [ex_davCollectionPropSet]"
  "p_updatedProperties ex_collection = []"
  "p_objectFactoryMapper ex_collection = []"
  "p_collectionFactoryMapper ex_collection = []"
  by (simp_all add: ex_collection_def DavCollection_new_def
        exposeProperty_def registerPropSetFactory_def Let_def ex_platform_def)




section \<open>Properties of find\<close>























section \<open>Properties of the resolution\<close>

lemma handleEntries_filter:
  "handleEntries pf R c isPartial (filter (\<lambda>e. \<not> is_own_path c (fst e)) es) acc
     = handleEntries pf R c isPartial es acc"
  by (induction es arbitrary: acc) (simp_all split: sum.splits)

lemma handleEntries_Inr:
  "handleEntries pf R c isPartial es acc = Inr r \<Longrightarrow>
     fst r = fst acc @ map fst (filter (\<lambda>e. \<not> is_own_path c (fst e)) es)
     \<and> map Inr (snd r) = map Inr (snd acc)
           @ map (\<lambda>e. handleEntry pf R c isPartial (fst e) (snd e))
               (filter (\<lambda>e. \<not> is_own_path c (fst e)) es)"
proof (induction es arbitrary: acc)
  case Nil
  then show ?case by simp
next
  case (Cons e es)
  show ?case
  proof (cases "is_own_path c (fst e)")
    case True
    with Cons show ?thesis by simp
  next
    case False
    with Cons.prems obtain ch where
      ch: "handleEntry pf R c isPartial (fst e) (snd e) = Inr ch"
      and rest: "handleEntries pf R c isPartial es (fst acc @ [fst e], snd acc @ [ch]) = Inr r"
      by (auto split: sum.splits)
    from Cons.IH [OF rest] False ch show ?thesis by simp
  qed
qed

text \<open>
  What the resolution does skip: the entries whose path, as the string that the server
  sent, is the url of the collection or that url without the trailing separator. The
  children are the nodes built from the other entries, one for each in their order, and
  the paths of those are what is appended to \<^verbatim>\<open>_childrenNames\<close>. \<^verbatim>\<open>findAll()\<close> returns what
  this resolution returns on the entries of the body of its depth-1 PROPFIND.
\<close>

lemma handleMultiStatusResponse_skips_equal_paths:
  "handleMultiStatusResponse pf R c entries isPartial
     = handleMultiStatusResponse pf R c
         (filter (\<lambda>e. \<not> (fst e = p_url c \<or> fst e @ ''/'' = DavCollection_url c)) entries)
         isPartial
   \<and> (\<forall>children c'.
        handleMultiStatusResponse pf R c entries isPartial = (Inr children, c') \<longrightarrow>
          map Inr children
            = map (\<lambda>e. handleEntry pf R c isPartial (fst e) (snd e))
                (filter (\<lambda>e. \<not> (fst e = p_url c \<or> fst e @ ''/'' = DavCollection_url c)) entries)
          \<and> c' = c\<lparr>p_childrenNames := p_childrenNames c
                @ map fst (filter (\<lambda>e. \<not> (fst e = p_url c \<or> fst e @ ''/'' = DavCollection_url c))
                             entries)\<rparr>)
   \<and> (\<forall>children c' n'.
        findAll pf R c n = (Inr children, c', n') \<longrightarrow>
          (\<exists>resp entries.
             fst (propFind pf R (p_url c) (p_propFindList c) ''1'' [] n) = Inr resp
             \<and> body_entries (resp_body resp) = Inr entries
             \<and> handleMultiStatusResponse pf R c entries False = (Inr children, c')))"
proof (intro conjI allI impI)
  have own: "(\<lambda>e. \<not> (fst e = p_url c \<or> fst e @ ''/'' = DavCollection_url c))
               = (\<lambda>e. \<not> is_own_path c (fst e))"
    by (simp add: is_own_path_def)
  show "handleMultiStatusResponse pf R c entries isPartial
     = handleMultiStatusResponse pf R c
         (filter (\<lambda>e. \<not> (fst e = p_url c \<or> fst e @ ''/'' = DavCollection_url c)) entries)
         isPartial"
    unfolding own by (simp add: handleMultiStatusResponse_def handleEntries_filter)
  {
    fix children c'
    assume a: "handleMultiStatusResponse pf R c entries isPartial = (Inr children, c')"
    then obtain r where r: "handleEntries pf R c isPartial entries ([], []) = Inr r"
      and ch: "children = snd r" and c': "c' = c\<lparr>p_childrenNames := p_childrenNames c @ fst r\<rparr>"
      by (auto simp: handleMultiStatusResponse_def split: sum.splits)
    from handleEntries_Inr [OF r] ch c'
    show "map Inr children
            = map (\<lambda>e. handleEntry pf R c isPartial (fst e) (snd e))
                (filter (\<lambda>e. \<not> (fst e = p_url c \<or> fst e @ ''/'' = DavCollection_url c)) entries)"
      and "c' = c\<lparr>p_childrenNames := p_childrenNames c
                @ map fst (filter (\<lambda>e. \<not> (fst e = p_url c \<or> fst e @ ''/'' = DavCollection_url c))
                             entries)\<rparr>"
      unfolding own by simp_all
  }
  {
    fix children c' n'
    assume "findAll pf R c n = (Inr children, c', n')"
    then show "\<exists>resp entries.
             fst (propFind pf R (p_url c) (p_propFindList c) ''1'' [] n) = Inr resp
             \<and> body_entries (resp_body resp) = Inr entries
             \<and> handleMultiStatusResponse pf R c entries False = (Inr children, c')"
      by (auto simp: findAll_def split: prod.splits sum.splits)
  }
qed

lemma evaluate_skips_equal_paths:
  "handleMultiStatusResponse (ex_platform answer_207 []) ex_request ex_collection ex_entries False
     = (Inr [DavObject ''/dav/col/a'' [(''{DAV:}getcontenttype'', VString ''text/vcard'')]],
        ex_collection\<lparr>p_childrenNames := p_childrenNames ex_collection @ [''/dav/col/a'']\<rparr>)"
proof -
  let ?pf = "ex_platform answer_207 []"
  let ?props = "[(''{DAV:}getcontenttype'', VString ''text/vcard'')]"
  have f: "filter (\<lambda>e. \<not> (fst e = p_url ex_collection
                         \<or> fst e @ ''/'' = DavCollection_url ex_collection)) ex_entries
             = [(''/dav/col/a'', Props ?props)]"
    by (simp add: ex_entries_def DavCollection_url_def evaluate_ex_collection_fields)
  have e: "handleEntry ?pf ex_request ex_collection False ''/dav/col/a'' (Props ?props)
             = Inr (DavObject ''/dav/col/a'' ?props)"
    by (simp add: handleEntry_def pathname_def ex_platform_def classify_def
          evaluate_ex_collection_fields factory_lookup_def Object_prototype_members_def)
  have "handleMultiStatusResponse ?pf ex_request ex_collection
          [(''/dav/col/a'', Props ?props)] False
          = (Inr [DavObject ''/dav/col/a'' ?props],
             ex_collection\<lparr>p_childrenNames := p_childrenNames ex_collection @ [''/dav/col/a'']\<rparr>)"
    by (simp add: handleMultiStatusResponse_def is_own_path_def DavCollection_url_def
          evaluate_ex_collection_fields e)
  with handleMultiStatusResponse_skips_equal_paths
         [of ?pf ex_request ex_collection ex_entries False ex_net, THEN conjunct1] f
  show ?thesis by simp
qed

lemma evaluate_depth1_headers:
  "Object_assign (Object_assign [] getDefaultHeaders) [(''Depth'', ''1'')]
     = [(''Depth'', ''1''), (''Content-Type'', ''application/xml; charset=utf-8'')]"
  by (simp add: Object_assign_def Object_entries_def getDefaultHeaders_def
        is_array_index_def is_digit_def)

lemma evaluate_parseInt_1: "parseInt ''1'' = Some 1"
  by (simp add: parseInt_def is_white_space_def is_digit_def digits_value_def digit_value_def)

lemma evaluate_propFind_depth1:
  "fst (propFind (ex_platform answer_207 doc) ex_request u l ''1'' [] ex_net)
     = Inr \<lparr>resp_body = MultiStatus (reduceResponses ex_parser doc), resp_status = 207\<rparr>"
  by (simp add: propFind_def request_def evaluate_depth1_headers absoluteUrl_def send_def
        onFulfilled_def evaluate_parseInt_1 parseMultiStatusResponse_def
        ex_platform_def ex_request_def answer_207_def Let_def)

lemma evaluate_propFind_depth1_resolving:
  "fst (propFind (ex_platform_resolving answer_207 doc) ex_request u l ''1'' [] ex_net)
     = Inr \<lparr>resp_body = MultiStatus (reduceResponses ex_parser doc), resp_status = 207\<rparr>"
  by (simp add: propFind_def request_def evaluate_depth1_headers absoluteUrl_def send_def
        onFulfilled_def evaluate_parseInt_1 parseMultiStatusResponse_def
        ex_platform_resolving_def ex_platform_def ex_request_def answer_207_def Let_def)

lemma findAll_resolved:
  assumes "fst (propFind pf R (p_url c) (p_propFindList c) ''1'' [] n) = Inr resp"
    and "body_entries (resp_body resp) = Inr entries"
  shows "fst (findAll pf R c n) = fst (handleMultiStatusResponse pf R c entries False)"
proof -
  obtain n' where "propFind pf R (p_url c) (p_propFindList c) ''1'' [] n = (Inr resp, n')"
    using assms(1) by (cases "propFind pf R (p_url c) (p_propFindList c) ''1'' [] n") simp
  then show ?thesis
    using assms(2) by (simp add: findAll_def split: prod.splits)
qed

lemma evaluate_ex_doc_absolute:
  "reduceResponses ex_parser ex_doc_absolute
     = [(''https://host/dav/col/'', [(''{DAV:}displayname'', VString ''Col''),
                                    (''{DAV:}resourcetype'', VList [''{DAV:}collection''])]),
        (''https://host/dav/col/a'', [(''{DAV:}getcontenttype'', VString ''text/plain'')])]"
  by (simp add: reduceResponses_def ex_doc_absolute_def parsePropStats_def parseProps_def
        evaluate_propstat_successful ex_parser_def dav_prop_def clark_name_def)

lemma evaluate_pathname_resolving:
  "pathname (ex_platform_resolving answer doc) ex_request ''https://host/dav/col/''
     = Some ''/dav/col/''"
  "pathname (ex_platform_resolving answer doc) ex_request ''https://host/dav/col/a''
     = Some ''/dav/col/a''"
  by (simp_all add: pathname_def ex_platform_resolving_def ex_platform_def ex_request_def)

text \<open>
  C4. The resolution compares the path of an entry with the url of the collection as the
  string that the server sent, and resolves it against the base url only afterwards. In
  a body whose paths are absolute urls the entry of the collection itself is not
  skipped: \<^verbatim>\<open>findAll()\<close> returns a child for it, a collection whose url is the url of the
  collection itself.
\<close>

theorem findAll_returns_child_for_own_url:
  "fst (findAll (ex_platform_resolving answer_207 ex_doc_absolute) ex_request ex_collection
          ex_net)
     = Inr [GenericDavCollection
              (DavCollection_new (ex_platform_resolving answer_207 ex_doc_absolute) ''/dav/col/''
                 [(''{DAV:}displayname'', VString ''Col''),
                  (''{DAV:}resourcetype'', VList [''{DAV:}collection''])]),
            DavObject ''/dav/col/a'' [(''{DAV:}getcontenttype'', VString ''text/plain'')]]
   \<and> DavCollection_url
        (DavCollection_new (ex_platform_resolving answer_207 ex_doc_absolute) ''/dav/col/''
           [(''{DAV:}displayname'', VString ''Col''),
            (''{DAV:}resourcetype'', VList [''{DAV:}collection''])])
       = DavCollection_url ex_collection"
proof -
  let ?pf = "ex_platform_resolving answer_207 ex_doc_absolute"
  let ?own = "[(''{DAV:}displayname'', VString ''Col''),
               (''{DAV:}resourcetype'', VList [''{DAV:}collection''])]"
  let ?file = "[(''{DAV:}getcontenttype'', VString ''text/plain'')]"
  have b: "body_entries (resp_body \<lparr>resp_body = MultiStatus (reduceResponses ex_parser ex_doc_absolute),
                                     resp_status = 207\<rparr>)
             = Inr [(''https://host/dav/col/'', Props ?own), (''https://host/dav/col/a'', Props ?file)]"
    by (simp add: evaluate_ex_doc_absolute body_entries_def Object_entries_def
          is_array_index_def is_digit_def)
  have e1: "handleEntry ?pf ex_request ex_collection False ''https://host/dav/col/'' (Props ?own)
              = Inr (GenericDavCollection (DavCollection_new ?pf ''/dav/col/'' ?own))"
    by (simp add: handleEntry_def evaluate_pathname_resolving classify_def NS_DAV_def)
  have e2: "handleEntry ?pf ex_request ex_collection False ''https://host/dav/col/a'' (Props ?file)
              = Inr (DavObject ''/dav/col/a'' ?file)"
    by (simp add: handleEntry_def evaluate_pathname_resolving classify_def
          evaluate_ex_collection_fields factory_lookup_def Object_prototype_members_def)
  have "fst (handleMultiStatusResponse ?pf ex_request ex_collection
               [(''https://host/dav/col/'', Props ?own), (''https://host/dav/col/a'', Props ?file)]
               False)
          = Inr [GenericDavCollection (DavCollection_new ?pf ''/dav/col/'' ?own),
                 DavObject ''/dav/col/a'' ?file]"
    by (simp add: handleMultiStatusResponse_def is_own_path_def DavCollection_url_def
          evaluate_ex_collection_fields e1 e2)
  with findAll_resolved [OF evaluate_propFind_depth1_resolving b]
  have "fst (findAll ?pf ex_request ex_collection ex_net)
          = Inr [GenericDavCollection (DavCollection_new ?pf ''/dav/col/'' ?own),
                 DavObject ''/dav/col/a'' ?file]"
    by simp
  then show ?thesis
    by (simp add: DavCollection_url_def DavCollection_new_url evaluate_ex_collection_fields)
qed











lemma evaluate_ex_doc_not_found:
  "reduceResponses ex_parser ex_doc_not_found = [(''/dav/col/x'', [])]"
  by (simp add: reduceResponses_def ex_doc_not_found_def parsePropStats_def
        evaluate_propstat_successful)

lemma handleEntry_Collection_list:
  assumes "classify props = Collection"
    and "map_of props ''{DAV:}resourcetype'' = Some (VList types)"
    and "pathname pf R path = Some u"
  shows "handleEntry pf R c isPartial path (Props props) =
           (case find (\<lambda>r. r \<noteq> ''{DAV:}collection'') types of
              None \<Rightarrow> Inr (GenericDavCollection (DavCollection_new pf u props))
            | Some t \<Rightarrow>
                (if t = [] then Inr (GenericDavCollection (DavCollection_new pf u props))
                 else (case factory_lookup (p_collectionFactoryMapper c) t of
                         NoMember \<Rightarrow> Inr (GenericDavCollection (DavCollection_new pf u props))
                       | Registered f \<Rightarrow> Inr (CollectionFromFactory (factory_name f) u props)
                       | ObjectConstructor \<Rightarrow> Inr TheCollectionItself
                       | NotAConstructor \<Rightarrow> Inl TypeError)))"
  using assms by (simp add: handleEntry_def NS_DAV_def split: option.splits)

lemma handleEntry_Collection_no_list:
  assumes "classify props = Collection"
    and "\<And>types. map_of props ''{DAV:}resourcetype'' \<noteq> Some (VList types)"
  shows "handleEntry pf R c isPartial path (Props props) = Inl TypeError"
  using assms by (simp add: handleEntry_def split: option.splits jsvalue.splits)

lemma classify_no_properties: "classify [] = Collection"
  by (simp add: classify_def)

text \<open>
  C6. For an entry classified as a collection whose resource type is a list, lemma
  \<open>handleEntry_Collection_list\<close> gives the constructor that the resolution selects. An
  entry without a resource type and without a content type is classified as a collection
  as well, and there the call of \<^verbatim>\<open>find\<close> on the undefined resource type throws: below, the
  only response of the body reports both properties as not found, its reduced
  PropertyMap is empty, and \<^verbatim>\<open>findAll()\<close> is rejected with a TypeError instead of
  returning a generic collection.
\<close>

theorem findAll_absent_resourcetype_throws:
  "reduceResponses ex_parser ex_doc_not_found = [(''/dav/col/x'', [])]
   \<and> handleEntry (ex_platform answer_207 ex_doc_not_found) ex_request ex_collection False
        ''/dav/col/x'' (Props []) = Inl TypeError
   \<and> fst (findAll (ex_platform answer_207 ex_doc_not_found) ex_request ex_collection ex_net)
       = Inl TypeError"
proof -
  let ?pf = "ex_platform answer_207 ex_doc_not_found"
  note c = classify_no_properties
  have e: "handleEntry ?pf ex_request ex_collection False ''/dav/col/x'' (Props []) = Inl TypeError"
    by (rule handleEntry_Collection_no_list) (simp_all add: c)
  have b: "body_entries (resp_body \<lparr>resp_body = MultiStatus (reduceResponses ex_parser ex_doc_not_found),
                                     resp_status = 207\<rparr>)
             = Inr [(''/dav/col/x'', Props [])]"
    by (simp add: evaluate_ex_doc_not_found body_entries_def Object_entries_def
          is_array_index_def is_digit_def)
  have "fst (handleMultiStatusResponse ?pf ex_request ex_collection [(''/dav/col/x'', Props [])]
               False) = Inl TypeError"
    by (simp add: handleMultiStatusResponse_def is_own_path_def
          DavCollection_url_def evaluate_ex_collection_fields e)
  with findAll_resolved [OF evaluate_propFind_depth1 b]
  have "fst (findAll ?pf ex_request ex_collection ex_net) = Inl TypeError"
    by simp
  with e show ?thesis
    by (simp add: evaluate_ex_doc_not_found)
qed

end
